theory Spec2Isabelle
  imports Main "HOL-Library.AList"
begin

section \<open>Values, exceptions and strings\<close>

text \<open>
  A Python \<open>str\<close> is modelled as a \<open>string\<close> whose characters are the code points
  U+0000 .. U+00FF; \<open>length\<close> counts code points, as Python's \<open>len\<close> does.
  Arguments that need not be strings are values of \<open>pyval\<close>.
\<close>

datatype pyval = PyNone | PyBool bool | PyInt int | PyStr string

text \<open>The exceptions that the program raises or that the library raises into it.\<close>

datatype exn =
    ValueError string
  | IndexError string
  | KeyError string
  | OverflowError string

text \<open>
  \<open>str.isdigit\<close>: the string is not empty and every character has the Unicode property
  Numeric_Type = Digit or Decimal. Below U+0100 these are the ten ASCII digits and the
  superscripts U+00B2, U+00B3 and U+00B9.
\<close>

definition ascii_digit :: "char \<Rightarrow> bool" where
  "ascii_digit c = (c \<in> set ''0123456789'')"

definition isdigit_char :: "char \<Rightarrow> bool" where
  "isdigit_char c = (ascii_digit c \<or> c = CHR 0xB2 \<or> c = CHR 0xB3 \<or> c = CHR 0xB9)"

definition isdigit :: "string \<Rightarrow> bool" where
  "isdigit s = (s \<noteq> [] \<and> list_all isdigit_char s)"

text \<open>\<open>sep.join(xs)\<close>.\<close>

fun join :: "string \<Rightarrow> string list \<Rightarrow> string" where
  "join sep [] = []"
| "join sep [x] = x"
| "join sep (x # y # ys) = x @ sep @ join sep (y # ys)"

section \<open>Fields\<close>

text \<open>
  \<open>Phone(number)\<close>: the constructor raises unless the argument is a string, passes
  \<open>isdigit\<close> and has length 10; the result is the stored \<open>value\<close>.
\<close>

definition Phone :: "pyval \<Rightarrow> exn + string" where
  "Phone number =
     (case number of
        PyStr s \<Rightarrow>
          if \<not> isdigit s \<or> length s \<noteq> 10
          then Inl (ValueError ''The phone number must be a string of 10 digits'')
          else Inr s
      | _ \<Rightarrow> Inl (ValueError ''The phone number must be a string of 10 digits''))"

section \<open>Record\<close>

text \<open>
  A record holds the \<open>value\<close> of its \<open>Name\<close>, of each \<open>Phone\<close> in \<open>phones\<close> and of its
  \<open>Birthday\<close> (\<open>None\<close> or a string).
\<close>

record Record =
  name :: string
  phones :: "string list"
  birthday :: "string option"

definition Record_init :: "string \<Rightarrow> Record" where
  "Record_init nm = \<lparr>name = nm, phones = [], birthday = None\<rparr>"

text \<open>\<open>add_phone\<close>: the phone is validated before the list is touched.\<close>

definition add_phone :: "string \<Rightarrow> Record \<Rightarrow> exn + Record" where
  "add_phone number r =
     (case Phone (PyStr number) of
        Inl e \<Rightarrow> Inl e
      | Inr p \<Rightarrow> Inr (r\<lparr>phones := phones r @ [p]\<rparr>))"

text \<open>\<open>find_phone\<close>: the first phone whose value equals the number, or \<open>None\<close>.\<close>

definition find_phone :: "string \<Rightarrow> Record \<Rightarrow> string option" where
  "find_phone number r = find (\<lambda>p. p = number) (phones r)"

text \<open>
  \<open>remove_phone\<close>: the loop returns at the first phone whose value equals the number,
  after removing that element.
\<close>

fun remove_first :: "string \<Rightarrow> string list \<Rightarrow> bool \<times> string list" where
  "remove_first number [] = (False, [])"
| "remove_first number (p # ps) =
     (if p = number then (True, ps)
      else (case remove_first number ps of (b, ps') \<Rightarrow> (b, p # ps')))"

definition remove_phone :: "string \<Rightarrow> Record \<Rightarrow> bool \<times> Record" where
  "remove_phone number r =
     (case remove_first number (phones r) of (b, ps) \<Rightarrow> (b, r\<lparr>phones := ps\<rparr>))"

text \<open>
  Truth value of an instance of a class that defines neither \<open>__bool__\<close> nor
  \<open>__len__\<close> (\<open>Field\<close> and its subclasses, \<open>Record\<close>): always true, whatever the
  instance holds.
\<close>

definition object_truthy :: "'a \<Rightarrow> bool" where
  "object_truthy obj = True"

text \<open>
  \<open>edit_phone\<close>: the condition is the truth value of what \<open>find_phone\<close> returns, a
  \<open>Phone\<close> object or \<open>None\<close>. Then the new phone is added and the old one removed.
\<close>

definition edit_phone :: "string \<Rightarrow> string \<Rightarrow> Record \<Rightarrow> exn + (bool \<times> Record)" where
  "edit_phone old_number new_number r =
     (case find_phone old_number r of
        Some p \<Rightarrow>
          if object_truthy p then
            (case add_phone new_number r of
               Inl e \<Rightarrow> Inl e
             | Inr r1 \<Rightarrow> Inr (True, snd (remove_phone old_number r1)))
          else Inl (ValueError (''Old number '' @ old_number @ '' not found''))
      | None \<Rightarrow> Inl (ValueError (''Old number '' @ old_number @ '' not found'')))"

text \<open>
  \<open>__str__\<close>: the condition \<open>self.birthday\<close> is the truth value of the \<open>Birthday\<close>
  object, not of its value. A value \<open>None\<close> is formatted as the text \<open>None\<close>.
\<close>

definition str_opt :: "string option \<Rightarrow> string" where
  "str_opt v = (case v of None \<Rightarrow> ''None'' | Some s \<Rightarrow> s)"

definition Record_str :: "Record \<Rightarrow> string" where
  "Record_str r =
     (let birthday_str =
            (if object_truthy (birthday r) then '', birthday: '' @ str_opt (birthday r) else [])
      in ''Contact name: '' @ name r @ '', phones: '' @ join ''; '' (phones r) @ birthday_str)"

section \<open>Dates and times\<close>

text \<open>
  The part of \<open>datetime\<close> that the program uses. A \<open>datetime\<close> is naive (no time
  zone) and has the seven fields below; Python's integers are \<open>int\<close>.
\<close>

record datetime =
  year :: int
  month :: int
  day :: int
  hour :: int
  minute :: int
  second :: int
  microsecond :: int

definition is_leap :: "int \<Rightarrow> bool" where
  "is_leap y = (y mod 4 = 0 \<and> (y mod 100 \<noteq> 0 \<or> y mod 400 = 0))"

definition days_in_month :: "int \<Rightarrow> int \<Rightarrow> int" where
  "days_in_month y m =
     (if m = 2 then (if is_leap y then 29 else 28)
      else if m = 4 \<or> m = 6 \<or> m = 9 \<or> m = 11 then 30 else 31)"

definition valid_date :: "int \<Rightarrow> int \<Rightarrow> int \<Rightarrow> bool" where
  "valid_date y m d =
     (1 \<le> y \<and> y \<le> 9999 \<and> 1 \<le> m \<and> m \<le> 12 \<and> 1 \<le> d \<and> d \<le> days_in_month y m)"

text \<open>The values a \<open>datetime\<close> object can hold.\<close>

definition valid_datetime :: "datetime \<Rightarrow> bool" where
  "valid_datetime t =
     (valid_date (year t) (month t) (day t) \<and>
      0 \<le> hour t \<and> hour t < 24 \<and> 0 \<le> minute t \<and> minute t < 60 \<and>
      0 \<le> second t \<and> second t < 60 \<and> 0 \<le> microsecond t \<and> microsecond t < 1000000)"

definition midnight :: "int \<Rightarrow> int \<Rightarrow> int \<Rightarrow> datetime" where
  "midnight y m d =
     \<lparr>year = y, month = m, day = d, hour = 0, minute = 0, second = 0, microsecond = 0\<rparr>"

text \<open>Proleptic Gregorian ordinal: 1 January of year 1 is day 1.\<close>

definition days_before_year :: "int \<Rightarrow> int" where
  "days_before_year y = (let y1 = y - 1 in y1 * 365 + y1 div 4 - y1 div 100 + y1 div 400)"

definition days_before_month :: "int \<Rightarrow> int \<Rightarrow> int" where
  "days_before_month y m =
     [0, 0, 31, 59, 90, 120, 151, 181, 212, 243, 273, 304, 334] ! nat m
       + (if m > 2 \<and> is_leap y then 1 else 0)"

definition ymd2ord :: "int \<Rightarrow> int \<Rightarrow> int \<Rightarrow> int" where
  "ymd2ord y m d = days_before_year y + days_before_month y m + d"

definition toordinal :: "datetime \<Rightarrow> int" where
  "toordinal t = ymd2ord (year t) (month t) (day t)"

text \<open>\<open>weekday()\<close>: Monday is 0, Saturday 5, Sunday 6.\<close>

definition weekday :: "datetime \<Rightarrow> int" where
  "weekday t = (toordinal t + 6) mod 7"

text \<open>Comparison of two naive datetimes: lexicographic on the seven fields.\<close>

fun lex_less :: "int list \<Rightarrow> int list \<Rightarrow> bool" where
  "lex_less (a # as) (b # bs) = (a < b \<or> (a = b \<and> lex_less as bs))"
| "lex_less [] (b # bs) = True"
| "lex_less as [] = False"

definition dt_fields :: "datetime \<Rightarrow> int list" where
  "dt_fields t = [year t, month t, day t, hour t, minute t, second t, microsecond t]"

definition dt_less :: "datetime \<Rightarrow> datetime \<Rightarrow> bool" where
  "dt_less a b = lex_less (dt_fields a) (dt_fields b)"

text \<open>\<open>str(n)\<close> for an integer that is not negative.\<close>

fun str_nat :: "nat \<Rightarrow> string" where
  "str_nat n =
     (if n < 10 then [''0123456789'' ! n]
      else str_nat (n div 10) @ [''0123456789'' ! (n mod 10)])"

declare str_nat.simps [simp del]

text \<open>
  \<open>replace(year=y)\<close> builds a new datetime from the changed fields and so checks
  them again: the year must lie in 1 .. 9999 and the day must exist in the month of
  that year; otherwise it raises \<open>ValueError\<close>.
\<close>

definition replace_year :: "datetime \<Rightarrow> int \<Rightarrow> exn + datetime" where
  "replace_year t y =
     (if y < 1 \<or> 9999 < y
      then Inl (ValueError (''year '' @ (if y < 0 then ''-'' else []) @ str_nat (nat \<bar>y\<bar>)
                  @ '' is out of range''))
      else if days_in_month y (month t) < day t
      then Inl (ValueError ''day is out of range for month'')
      else Inr (t\<lparr>year := y\<rparr>))"

text \<open>
  \<open>t + timedelta(days=k)\<close> for \<open>k \<ge> 0\<close>: the date \<open>k\<close> days later, time of day
  unchanged; \<open>OverflowError\<close> when the result lies after year 9999.
\<close>

definition tomorrow :: "datetime \<Rightarrow> datetime" where
  "tomorrow t =
     (if day t < days_in_month (year t) (month t) then t\<lparr>day := day t + 1\<rparr>
      else if month t < 12 then t\<lparr>month := month t + 1, day := 1\<rparr>
      else t\<lparr>year := year t + 1, month := 1, day := 1\<rparr>)"

definition add_days :: "datetime \<Rightarrow> nat \<Rightarrow> exn + datetime" where
  "add_days t k =
     (let t' = (tomorrow ^^ k) t
      in if 9999 < year t' then Inl (OverflowError ''date value out of range'') else Inr t')"

text \<open>
  \<open>(a - b).days\<close>: the difference in days, seconds and microseconds is normalised
  so that seconds and microseconds are not negative, which rounds the days down.
\<close>

definition sub_days :: "datetime \<Rightarrow> datetime \<Rightarrow> int" where
  "sub_days a b =
     (let delta_d = toordinal a - toordinal b;
          delta_s = (hour a - hour b) * 3600 + (minute a - minute b) * 60 + (second a - second b);
          delta_us = microsecond a - microsecond b;
          s = delta_s + delta_us div 1000000
      in delta_d + s div 86400)"

text \<open>
  \<open>strftime("%d.%m.%Y")\<close>: day and month with two digits; the year as the C library
  prints it, a decimal number without padding (year 999 is \<open>999\<close>). The year of a
  \<open>datetime\<close> lies in 1 .. 9999, so it has one to four digits.
\<close>

definition digit_char :: "int \<Rightarrow> char" where
  "digit_char n = ''0123456789'' ! nat n"

definition pad2 :: "int \<Rightarrow> string" where
  "pad2 n = [digit_char (n div 10 mod 10), digit_char (n mod 10)]"

definition year_str :: "int \<Rightarrow> string" where
  "year_str y =
     (if y < 10 then [digit_char y]
      else if y < 100 then pad2 y
      else if y < 1000 then digit_char (y div 100) # pad2 (y mod 100)
      else pad2 (y div 100) @ pad2 (y mod 100))"

definition strftime :: "datetime \<Rightarrow> string" where
  "strftime t = pad2 (day t) @ ''.'' @ pad2 (month t) @ ''.'' @ year_str (year t)"

text \<open>
  \<open>strptime(s, "%d.%m.%Y")\<close>. The day is one of \<open>3[0-1]\<close>, \<open>[1-2]\d\<close>, \<open>0[1-9]\<close>,
  \<open>[1-9]\<close> or a blank and \<open>[1-9]\<close>; the month one of \<open>1[0-2]\<close>, \<open>0[1-9]\<close>, \<open>[1-9]\<close>;
  the year four digits; a full stop stands between them. Text left over, or a date
  that does not exist, is a \<open>ValueError\<close>. Both callers catch it without looking at
  its message, so the failure is \<open>None\<close> here. The result is midnight of the day.
\<close>

definition digit_val :: "char \<Rightarrow> int" where
  "digit_val c = int (length (takeWhile (\<lambda>x. x \<noteq> c) ''0123456789''))"

definition nonzero_digit :: "char \<Rightarrow> bool" where
  "nonzero_digit c = (c \<in> set ''123456789'')"

fun match_day :: "string \<Rightarrow> int option" where
  "match_day [a] = (if nonzero_digit a then Some (digit_val a) else None)"
| "match_day [a, b] =
     (if a = CHR ''3'' \<and> (b = CHR ''0'' \<or> b = CHR ''1'') then Some (30 + digit_val b)
      else if (a = CHR ''1'' \<or> a = CHR ''2'') \<and> ascii_digit b
        then Some (10 * digit_val a + digit_val b)
      else if a = CHR ''0'' \<and> nonzero_digit b then Some (digit_val b)
      else if a = CHR '' '' \<and> nonzero_digit b then Some (digit_val b)
      else None)"
| "match_day _ = None"

fun match_month :: "string \<Rightarrow> int option" where
  "match_month [a] = (if nonzero_digit a then Some (digit_val a) else None)"
| "match_month [a, b] =
     (if a = CHR ''1'' \<and> (b = CHR ''0'' \<or> b = CHR ''1'' \<or> b = CHR ''2'')
        then Some (10 + digit_val b)
      else if a = CHR ''0'' \<and> nonzero_digit b then Some (digit_val b)
      else None)"
| "match_month _ = None"

fun match_year :: "string \<Rightarrow> int option" where
  "match_year [a, b, c, d] =
     (if ascii_digit a \<and> ascii_digit b \<and> ascii_digit c \<and> ascii_digit d
      then Some (1000 * digit_val a + 100 * digit_val b + 10 * digit_val c + digit_val d)
      else None)"
| "match_year _ = None"

definition strptime :: "string \<Rightarrow> datetime option" where
  "strptime s =
     (let d_txt = takeWhile (\<lambda>c. c \<noteq> CHR ''.'') s;
          rest1 = dropWhile (\<lambda>c. c \<noteq> CHR ''.'') s;
          m_txt = takeWhile (\<lambda>c. c \<noteq> CHR ''.'') (tl rest1);
          rest2 = dropWhile (\<lambda>c. c \<noteq> CHR ''.'') (tl rest1);
          y_txt = tl rest2
      in if rest1 = [] \<or> rest2 = [] then None
         else (case (match_day d_txt, match_month m_txt, match_year y_txt) of
                 (Some d, Some m, Some y) \<Rightarrow>
                   if valid_date y m d then Some (midnight y m d) else None
               | _ \<Rightarrow> None))"

text \<open>
  \<open>Birthday(value)\<close>: a falsy value (\<open>None\<close> or the empty string) is stored
  unchecked; any other string must parse.
\<close>

definition Birthday :: "string option \<Rightarrow> exn + string option" where
  "Birthday v =
     (case v of
        None \<Rightarrow> Inr v
      | Some s \<Rightarrow>
          if s \<noteq> []
          then (case strptime s of
                  None \<Rightarrow> Inl (ValueError ''Birthday must be in format DD.MM.YYYY'')
                | Some _ \<Rightarrow> Inr v)
          else Inr v)"

text \<open>\<open>Record.add_birthday\<close>.\<close>

definition Record_add_birthday :: "string \<Rightarrow> Record \<Rightarrow> exn + Record" where
  "Record_add_birthday b r =
     (case Birthday (Some b) of Inl e \<Rightarrow> Inl e | Inr v \<Rightarrow> Inr (r\<lparr>birthday := v\<rparr>))"

section \<open>AddressBook\<close>

text \<open>
  The book is a dictionary from names to records that keeps insertion order: an
  association list with distinct keys. Assigning to a key that is present replaces
  its value in place, assigning to a new key appends. A record object is reachable
  only through its entry in the book, so a method that mutates the record found under
  a key is an update of that entry.
\<close>

type_synonym AddressBook = "(string \<times> Record) list"

definition add_record :: "Record \<Rightarrow> AddressBook \<Rightarrow> AddressBook" where
  "add_record record book = AList.update (name record) record book"

text \<open>\<open>AddressBook.find\<close>.\<close>

definition find_rec :: "string \<Rightarrow> AddressBook \<Rightarrow> Record option" where
  "find_rec nm book = map_of book nm"

text \<open>
  The body of the loop of \<open>get_upcoming_birthdays\<close> for one record: an exception that
  leaves the method, nothing appended (\<open>None\<close>), or the appended entry, the pair of
  the values under the keys \<open>name\<close> and \<open>birthday\<close>. Only \<open>strptime\<close> is inside the
  \<open>try\<close>.
\<close>

definition upcoming_of :: "datetime \<Rightarrow> Record \<Rightarrow> exn + (string \<times> string) option" where
  "upcoming_of today record =
     (case birthday record of
        None \<Rightarrow> Inr None
      | Some v \<Rightarrow>
          if object_truthy (birthday record) \<and> v \<noteq> [] then
            (case strptime v of
               None \<Rightarrow> Inr None
             | Some birthday_date \<Rightarrow>
                 (case replace_year birthday_date (year today) of
                    Inl e \<Rightarrow> Inl e
                  | Inr b0 \<Rightarrow>
                      (case (if dt_less b0 today then replace_year b0 (year today + 1)
                             else Inr b0) of
                         Inl e \<Rightarrow> Inl e
                       | Inr b1 \<Rightarrow>
                           (case (if weekday b1 = 5 then add_days b1 2
                                  else if weekday b1 = 6 then add_days b1 1
                                  else Inr b1) of
                              Inl e \<Rightarrow> Inl e
                            | Inr this_year_birthday \<Rightarrow>
                                (let days_until_birthday = sub_days this_year_birthday today
                                 in if 0 \<le> days_until_birthday \<and> days_until_birthday \<le> 7
                                    then Inr (Some (name record, strftime this_year_birthday))
                                    else Inr None)))))
          else Inr None)"

fun upcoming_loop ::
  "datetime \<Rightarrow> Record list \<Rightarrow> (string \<times> string) list \<Rightarrow> exn + (string \<times> string) list" where
  "upcoming_loop today [] upcoming_birthdays = Inr upcoming_birthdays"
| "upcoming_loop today (record # records) upcoming_birthdays =
     (case upcoming_of today record of
        Inl e \<Rightarrow> Inl e
      | Inr None \<Rightarrow> upcoming_loop today records upcoming_birthdays
      | Inr (Some item) \<Rightarrow> upcoming_loop today records (upcoming_birthdays @ [item]))"

text \<open>\<open>get_upcoming_birthdays\<close>; the first argument is the value of \<open>datetime.now()\<close>.\<close>

definition get_upcoming_birthdays ::
  "datetime \<Rightarrow> AddressBook \<Rightarrow> exn + (string \<times> string) list" where
  "get_upcoming_birthdays today book = upcoming_loop today (map snd book) []"

section \<open>Command handlers\<close>

text \<open>
  The decorator \<open>input_error\<close>: the handlers of the \<open>except\<close> clauses, in their order.
  \<open>OverflowError\<close> falls to the last clause, which returns the exception's text.
\<close>

definition input_error :: "exn + string \<Rightarrow> string" where
  "input_error res =
     (case res of
        Inr s \<Rightarrow> s
      | Inl (ValueError e) \<Rightarrow> ''ValueError: '' @ e
      | Inl (IndexError _) \<Rightarrow> ''Please provide the correct number of arguments.''
      | Inl (KeyError _) \<Rightarrow> ''Contact not found.''
      | Inl (OverflowError e) \<Rightarrow> e)"

text \<open>
  Unpacking a list into a fixed number of names, or into names followed by a starred
  one, raises \<open>ValueError\<close> when the length does not fit (the texts are those of
  CPython 3.8 to 3.13).
\<close>

definition unpack_exact :: "nat \<Rightarrow> nat \<Rightarrow> exn" where
  "unpack_exact expected got =
     (if got < expected
      then ValueError (''not enough values to unpack (expected '' @ str_nat expected
             @ '', got '' @ str_nat got @ '')'')
      else ValueError (''too many values to unpack (expected '' @ str_nat expected @ '')''))"

definition unpack_at_least :: "nat \<Rightarrow> nat \<Rightarrow> exn" where
  "unpack_at_least expected got =
     ValueError (''not enough values to unpack (expected at least '' @ str_nat expected
       @ '', got '' @ str_nat got @ '')'')"

text \<open>
  Each handler is given as its undecorated body, which returns what the function
  returns or raises together with the book as it is at that moment, and as the
  decorated function, which turns the exception into a message.
\<close>

definition add_contact_body :: "string list \<Rightarrow> AddressBook \<Rightarrow> (exn + string) \<times> AddressBook" where
  "add_contact_body args book =
     (case args of
        nm # phone # _ \<Rightarrow>
          (let (record, book1, message) =
                 (case find_rec nm book of
                    None \<Rightarrow> (Record_init nm, add_record (Record_init nm) book, ''Contact added.'')
                  | Some r \<Rightarrow> (r, book, ''Contact updated.''))
           in if phone \<noteq> [] then
                (case add_phone phone record of
                   Inl e \<Rightarrow> (Inl e, book1)
                 | Inr record' \<Rightarrow> (Inr message, AList.update nm record' book1))
              else (Inr message, book1))
      | _ \<Rightarrow> (Inl (unpack_at_least 2 (length args)), book))"

definition add_contact :: "string list \<Rightarrow> AddressBook \<Rightarrow> string \<times> AddressBook" where
  "add_contact args book = (case add_contact_body args book of (res, book') \<Rightarrow> (input_error res, book'))"

definition change_contact_body :: "string list \<Rightarrow> AddressBook \<Rightarrow> (exn + string) \<times> AddressBook" where
  "change_contact_body args address_book =
     (case args of
        [nm, old_phone, new_phone] \<Rightarrow>
          (case find_rec nm address_book of
             Some record \<Rightarrow>
               if object_truthy record then
                 (case edit_phone old_phone new_phone record of
                    Inl e \<Rightarrow> (Inl e, address_book)
                  | Inr (_, record') \<Rightarrow>
                      (Inr ''Contact updated.'', AList.update nm record' address_book))
               else (Inl (KeyError (''Contact with name '' @ nm @ '' not found.'')), address_book)
           | None \<Rightarrow> (Inl (KeyError (''Contact with name '' @ nm @ '' not found.'')), address_book))
      | _ \<Rightarrow> (Inl (unpack_exact 3 (length args)), address_book))"

definition change_contact :: "string list \<Rightarrow> AddressBook \<Rightarrow> string \<times> AddressBook" where
  "change_contact args address_book =
     (case change_contact_body args address_book of (res, book') \<Rightarrow> (input_error res, book'))"

text \<open>
  \<open>show_upcoming_birthdays\<close>, the handler of the command \<open>birthdays\<close>; the first
  argument is the value of \<open>datetime.now()\<close>. The lines are joined by a line feed.
\<close>

definition show_upcoming_birthdays_body :: "datetime \<Rightarrow> AddressBook \<Rightarrow> exn + string" where
  "show_upcoming_birthdays_body today address_book =
     (case get_upcoming_birthdays today address_book of
        Inl e \<Rightarrow> Inl e
      | Inr upcoming \<Rightarrow>
          if upcoming = [] then Inr ''No upcoming birthdays.''
          else Inr (join [CHR 0x0A] (map (\<lambda>item. fst item @ '': '' @ snd item) upcoming)))"

definition show_upcoming_birthdays :: "datetime \<Rightarrow> AddressBook \<Rightarrow> string" where
  "show_upcoming_birthdays today address_book =
     input_error (show_upcoming_birthdays_body today address_book)"

text \<open>\<open>show_phone\<close> and \<open>show_birthday\<close> do not change the book.\<close>

definition show_phone_body :: "string list \<Rightarrow> AddressBook \<Rightarrow> exn + string" where
  "show_phone_body args address_book =
     (case args of
        [] \<Rightarrow> Inl (IndexError ''list index out of range'')
      | nm # _ \<Rightarrow>
          (case find_rec nm address_book of
             Some record \<Rightarrow>
               if object_truthy record
               then Inr (''Phone(s) for '' @ nm @ '': '' @ join '', '' (phones record))
               else Inl (KeyError [])
           | None \<Rightarrow> Inl (KeyError [])))"

definition show_phone :: "string list \<Rightarrow> AddressBook \<Rightarrow> string" where
  "show_phone args address_book = input_error (show_phone_body args address_book)"

definition add_birthday_body :: "string list \<Rightarrow> AddressBook \<Rightarrow> (exn + string) \<times> AddressBook" where
  "add_birthday_body args book =
     (case args of
        [nm, bday] \<Rightarrow>
          (case find_rec nm book of
             None \<Rightarrow> (Inl (ValueError (''Contact '' @ nm @ '' not found.'')), book)
           | Some record \<Rightarrow>
               if \<not> object_truthy record
               then (Inl (ValueError (''Contact '' @ nm @ '' not found.'')), book)
               else
                 (case Record_add_birthday bday record of
                    Inl e \<Rightarrow> (Inl e, book)
                  | Inr record' \<Rightarrow>
                      (Inr (''Birthday '' @ bday @ '' added to contact '' @ nm @ ''.''),
                       AList.update nm record' book)))
      | _ \<Rightarrow> (Inl (unpack_exact 2 (length args)), book))"

definition add_birthday :: "string list \<Rightarrow> AddressBook \<Rightarrow> string \<times> AddressBook" where
  "add_birthday args book =
     (case add_birthday_body args book of (res, book') \<Rightarrow> (input_error res, book'))"

definition show_birthday_body :: "string list \<Rightarrow> AddressBook \<Rightarrow> exn + string" where
  "show_birthday_body args address_book =
     (case args of
        [] \<Rightarrow> Inl (IndexError ''list index out of range'')
      | nm # _ \<Rightarrow>
          (case find_rec nm address_book of
             None \<Rightarrow> Inl (ValueError (''No birthday found for contact '' @ nm @ ''.''))
           | Some record \<Rightarrow>
               if \<not> object_truthy record \<or> \<not> object_truthy (birthday record)
               then Inl (ValueError (''No birthday found for contact '' @ nm @ ''.''))
               else Inr (''Birthday of '' @ nm @ '': '' @ str_opt (birthday record))))"

definition show_birthday :: "string list \<Rightarrow> AddressBook \<Rightarrow> string" where
  "show_birthday args address_book = input_error (show_birthday_body args address_book)"

section \<open>The upcoming birthday in the specification's words\<close>

text \<open>
  The specification describes the query on dates, without exceptions: this year's
  occurrence of the birthday, rolled to next year if it has passed; a Saturday moved
  by two days and a Sunday by one; the days until the moved date; the record listed
  when these are between 0 and 7. The definitions below follow that wording and are
  compared with \<open>get_upcoming_birthdays\<close> further down.
\<close>

definition occurrence :: "datetime \<Rightarrow> datetime \<Rightarrow> datetime" where
  "occurrence today bd =
     (if dt_less (bd\<lparr>year := year today\<rparr>) today then bd\<lparr>year := year today + 1\<rparr>
      else bd\<lparr>year := year today\<rparr>)"

definition weekend_shift :: "datetime \<Rightarrow> datetime" where
  "weekend_shift t =
     (if weekday t = 5 then tomorrow (tomorrow t)
      else if weekday t = 6 then tomorrow t
      else t)"

definition days_until :: "datetime \<Rightarrow> datetime \<Rightarrow> int" where
  "days_until today t = sub_days t today"

definition spec_upcoming :: "datetime \<Rightarrow> Record \<Rightarrow> (string \<times> string) option" where
  "spec_upcoming today r =
     (case birthday r of
        None \<Rightarrow> None
      | Some v \<Rightarrow>
          (case strptime v of
             None \<Rightarrow> None
           | Some bd \<Rightarrow>
               (let t = weekend_shift (occurrence today bd)
                in if 0 \<le> days_until today t \<and> days_until today t \<le> 7
                   then Some (name r, strftime t) else None)))"

text \<open>
  The day and month of a birthday exist in year \<open>y\<close>, and \<open>y\<close> is a year a
  \<open>datetime\<close> can hold.
\<close>

definition occurs_in :: "datetime \<Rightarrow> int \<Rightarrow> bool" where
  "occurs_in bd y = valid_date y (month bd) (day bd)"

text \<open>
  The dates that the query builds for a record exist: this year's occurrence and,
  when that has passed, next year's.
\<close>

definition occurrence_exists :: "datetime \<Rightarrow> Record \<Rightarrow> bool" where
  "occurrence_exists today r =
     (case birthday r of
        None \<Rightarrow> True
      | Some v \<Rightarrow>
          (case strptime v of
             None \<Rightarrow> True
           | Some bd \<Rightarrow>
               occurs_in bd (year today) \<and> occurs_in bd (year (occurrence today bd))))"

section \<open>Phone validation\<close>

lemma Phone_PyStr:
  "Phone (PyStr s) =
     (if length s = 10 \<and> list_all isdigit_char s then Inr s
      else Inl (ValueError ''The phone number must be a string of 10 digits''))"
  by (auto simp: Phone_def isdigit_def)

lemma ascii_digits_isdigit: "list_all ascii_digit t \<Longrightarrow> list_all isdigit_char t"
  by (induction t) (simp_all add: isdigit_char_def)

text \<open>
  Claim C3, as the code has it: \<open>Phone(p)\<close> succeeds if and only if \<open>p\<close> is a string
  of exactly 10 characters that \<open>str.isdigit\<close> accepts, and then it stores \<open>p\<close>
  itself; every other input raises \<open>ValueError\<close> with the text "The phone number
  must be a string of 10 digits". Every string of exactly 10 ASCII digits is accepted.
\<close>

theorem Phone_accepts_ten_isdigit_characters:
  "((\<exists>v. Phone p = Inr v) \<longleftrightarrow> (\<exists>s. p = PyStr s \<and> length s = 10 \<and> list_all isdigit_char s))
   \<and> (\<forall>v. Phone p = Inr v \<longrightarrow> p = PyStr v)
   \<and> ((\<nexists>v. Phone p = Inr v) \<longrightarrow>
        Phone p = Inl (ValueError ''The phone number must be a string of 10 digits''))
   \<and> (\<forall>s. length s = 10 \<and> list_all ascii_digit s \<longrightarrow> Phone (PyStr s) = Inr s)"
proof -
  have ascii: "\<forall>s. length s = 10 \<and> list_all ascii_digit s \<longrightarrow> Phone (PyStr s) = Inr s"
    using ascii_digits_isdigit by (simp add: Phone_PyStr)
  have rest: "((\<exists>v. Phone p = Inr v) \<longleftrightarrow> (\<exists>s. p = PyStr s \<and> length s = 10 \<and> list_all isdigit_char s))
      \<and> (\<forall>v. Phone p = Inr v \<longrightarrow> p = PyStr v)
      \<and> ((\<nexists>v. Phone p = Inr v) \<longrightarrow>
           Phone p = Inl (ValueError ''The phone number must be a string of 10 digits''))"
  proof (cases p)
    case (PyStr s)
    then show ?thesis by (simp add: Phone_PyStr)
  qed (simp_all add: Phone_def)
  from rest ascii show ?thesis by blast
qed

text \<open>The theorem at the string of the ten ASCII digits.\<close>

theorem Phone_accepts_ten_isdigit_characters_witness:
  "Phone (PyStr ''0123456789'') = Inr ''0123456789''"
proof -
  have "length ''0123456789'' = 10 \<and> list_all ascii_digit ''0123456789''"
    by (simp add: ascii_digit_def)
  with Phone_accepts_ten_isdigit_characters [of "PyStr ''0123456789''"] show ?thesis
    by blast
qed

text \<open>
  Acceptance is wider than the ASCII digits: ten times the superscript two (U+00B2)
  is a string that \<open>isdigit\<close> accepts, so the constructor succeeds on it.
\<close>

theorem Phone_superscript_digits_counterexample:
  "Phone (PyStr [CHR 0xB2, CHR 0xB2, CHR 0xB2, CHR 0xB2, CHR 0xB2, CHR 0xB2, CHR 0xB2, CHR 0xB2, CHR 0xB2, CHR 0xB2])
     = Inr [CHR 0xB2, CHR 0xB2, CHR 0xB2, CHR 0xB2, CHR 0xB2, CHR 0xB2, CHR 0xB2, CHR 0xB2, CHR 0xB2, CHR 0xB2]
   \<and> \<not> list_all ascii_digit [CHR 0xB2, CHR 0xB2, CHR 0xB2, CHR 0xB2, CHR 0xB2, CHR 0xB2, CHR 0xB2, CHR 0xB2, CHR 0xB2, CHR 0xB2]"
  by (simp add: Phone_PyStr isdigit_char_def ascii_digit_def)

section \<open>Editing a phone\<close>

lemma remove_first_remove1: "remove_first x ps = (x \<in> set ps, remove1 x ps)"
  by (induction ps) auto

lemma find_phone_None: "find_phone x r = None \<longleftrightarrow> x \<notin> set (phones r)"
  by (auto simp: find_phone_def find_None_iff)

lemma count_list_pos: "0 < count_list ps x \<longleftrightarrow> x \<in> set ps"
  using count_list_0_iff [of ps x] by auto

lemma in_remove1_count: "x \<in> set (remove1 x ps) \<longleftrightarrow> 1 < count_list ps x"
  by (induction ps) (simp_all add: count_list_pos)

text \<open>
  Claim C4, as the code has it: when \<open>old\<close> is in the phone list and \<open>new\<close> is a
  valid phone, \<open>edit_phone\<close> appends \<open>new\<close> and removes the first occurrence of
  \<open>old\<close> only; the result contains \<open>new\<close>, and it still contains \<open>old\<close> exactly
  when \<open>new = old\<close> or \<open>old\<close> was listed more than once. When \<open>old\<close> is not in
  the list, \<open>edit_phone\<close> raises \<open>ValueError\<close> "Old number ... not found".
\<close>

theorem edit_phone_replaces_first_occurrence:
  "(old \<in> set (phones r) \<and> Phone (PyStr new) = Inr new \<longrightarrow>
      edit_phone old new r = Inr (True, r\<lparr>phones := remove1 old (phones r) @ [new]\<rparr>)
      \<and> new \<in> set (remove1 old (phones r) @ [new])
      \<and> (old \<in> set (remove1 old (phones r) @ [new]) \<longleftrightarrow> new = old \<or> 1 < count_list (phones r) old))
   \<and> (old \<notin> set (phones r) \<longrightarrow>
      edit_phone old new r = Inl (ValueError (''Old number '' @ old @ '' not found'')))"
proof (intro conjI impI)
  assume a: "old \<in> set (phones r) \<and> Phone (PyStr new) = Inr new"
  then obtain p where p: "find_phone old r = Some p"
    using find_phone_None [of old r] by (cases "find_phone old r") auto
  show "edit_phone old new r = Inr (True, r\<lparr>phones := remove1 old (phones r) @ [new]\<rparr>)"
    using a p by (simp add: edit_phone_def object_truthy_def add_phone_def remove_phone_def
        remove_first_remove1 remove1_append)
  show "new \<in> set (remove1 old (phones r) @ [new])" by simp
  show "old \<in> set (remove1 old (phones r) @ [new]) \<longleftrightarrow> new = old \<or> 1 < count_list (phones r) old"
    by (auto simp: in_remove1_count)
next
  assume "old \<notin> set (phones r)"
  then have "find_phone old r = None" by (simp add: find_phone_None)
  then show "edit_phone old new r = Inl (ValueError (''Old number '' @ old @ '' not found''))"
    by (simp add: edit_phone_def)
qed

text \<open>With \<open>old\<close> listed twice, one copy of it is left after the edit.\<close>

theorem edit_phone_duplicate_counterexample:
  "edit_phone ''1111111111'' ''2222222222''
     \<lparr>name = ''alice'', phones = [''1111111111'', ''1111111111''], birthday = None\<rparr>
   = Inr (True, \<lparr>name = ''alice'', phones = [''1111111111'', ''2222222222''], birthday = None\<rparr>)"
  by (simp add: edit_phone_def object_truthy_def find_phone_def add_phone_def Phone_PyStr
      isdigit_char_def ascii_digit_def remove_phone_def)

text \<open>The theorem at a record with two different phones, for a present and an absent number.\<close>

theorem edit_phone_replaces_first_occurrence_witness:
  "edit_phone ''1111111111'' ''2222222222''
     \<lparr>name = ''alice'', phones = [''3333333333'', ''1111111111''], birthday = None\<rparr>
   = Inr (True, \<lparr>name = ''alice'', phones = [''3333333333'', ''2222222222''], birthday = None\<rparr>)
   \<and> edit_phone ''4444444444'' ''2222222222''
     \<lparr>name = ''alice'', phones = [''3333333333'', ''1111111111''], birthday = None\<rparr>
   = Inl (ValueError ''Old number 4444444444 not found'')"
proof -
  have v: "Phone (PyStr ''2222222222'') = Inr ''2222222222''"
    by (simp add: Phone_PyStr isdigit_char_def ascii_digit_def)
  show ?thesis
    using v edit_phone_replaces_first_occurrence [of "''1111111111''"
        "\<lparr>name = ''alice'', phones = [''3333333333'', ''1111111111''], birthday = None\<rparr>" "''2222222222''"]
      edit_phone_replaces_first_occurrence [of "''4444444444''"
        "\<lparr>name = ''alice'', phones = [''3333333333'', ''1111111111''], birthday = None\<rparr>" "''2222222222''"]
    by simp
qed

section \<open>Rendering a record\<close>

text \<open>
  Claim C7 on the code: a record that was just created, which has no birthday, is
  rendered with the suffix ", birthday: None".
\<close>

theorem Record_str_without_birthday:
  "Record_str (Record_init nm) = ''Contact name: '' @ nm @ '', phones: , birthday: None''"
  by (simp add: Record_str_def Record_init_def object_truthy_def str_opt_def)

text \<open>
  The suffix is appended for every record; the name and the phones are rendered as the claim says.
\<close>

theorem Record_str_always_has_birthday_suffix:
  "Record_str r = ''Contact name: '' @ name r @ '', phones: '' @ join ''; '' (phones r)
      @ '', birthday: '' @ str_opt (birthday r)"
  by (simp add: Record_str_def object_truthy_def)

section \<open>Calendar arithmetic\<close>

text \<open>
  One year on, the ordinal of 1 January grows by 365 days, or by 366 after a leap year.
\<close>

lemma div_step:
  fixes y k :: int
  assumes k: "0 < k"
  shows "y div k - (y - 1) div k = (if y mod k = 0 then 1 else 0)"
proof (cases "y mod k = 0")
  case True
  have "y = k * (y div k) + y mod k" by simp
  with True have "y - 1 = k * (y div k - 1) + (k - 1)" by (simp add: algebra_simps)
  moreover have "0 \<le> k - 1" "k - 1 < k" using k by simp_all
  ultimately have "(y - 1) div k = y div k - 1" by (rule int_div_pos_eq)
  with True show ?thesis by simp
next
  case False
  have "0 \<le> y mod k" "y mod k < k" using k by simp_all
  with False have b: "0 \<le> y mod k - 1" "y mod k - 1 < k" by simp_all
  have "y = k * (y div k) + y mod k" by simp
  then have "y - 1 = k * (y div k) + (y mod k - 1)" by simp
  from this b have "(y - 1) div k = y div k" by (rule int_div_pos_eq)
  with False show ?thesis by simp
qed

lemma leap_count:
  assumes "c \<Longrightarrow> b" and "b \<Longrightarrow> a"
  shows "(if a then 1 else 0) - (if b then 1 else 0) + (if c then 1 else 0)
       = (if a \<and> (\<not> b \<or> c) then (1::int) else 0)"
proof (cases c)
  case True
  with assms have "b" "a" by simp_all
  with True show ?thesis by simp
next
  case False
  show ?thesis
  proof (cases b)
    case True
    with assms have "a" by simp
    with True False show ?thesis by simp
  next
    case nb: False
    with False show ?thesis by simp
  qed
qed

lemma year_sum:
  fixes p4 q4 p100 q100 p400 q400 :: int
  shows "p4 - q4 = A \<Longrightarrow> p100 - q100 = B \<Longrightarrow> p400 - q400 = C \<Longrightarrow>
     y * 365 + p4 - p100 + p400 = (y - 1) * 365 + q4 - q100 + q400 + 365 + (A - B + C)"
  by (simp add: algebra_simps)

lemma days_before_year_step:
  "days_before_year (y + 1) = days_before_year y + 365 + (if is_leap y then 1 else 0)"
proof -
  have a: "y div 4 - (y - 1) div 4 = (if y mod 4 = 0 then 1 else 0)"
    by (rule div_step) simp
  have b: "y div 100 - (y - 1) div 100 = (if y mod 100 = 0 then 1 else 0)"
    by (rule div_step) simp
  have c: "y div 400 - (y - 1) div 400 = (if y mod 400 = 0 then 1 else 0)"
    by (rule div_step) simp
  have d: "y mod 400 = 0 \<Longrightarrow> y mod 100 = 0"
    using mod_mod_cancel [of 100 400 y] by simp
  have e: "y mod 100 = 0 \<Longrightarrow> y mod 4 = 0"
    using mod_mod_cancel [of 4 100 y] by simp
  have f1: "days_before_year (y + 1) = y * 365 + y div 4 - y div 100 + y div 400"
    unfolding days_before_year_def Let_def by (simp only: add_diff_cancel_right')
  have f2: "days_before_year y =
      (y - 1) * 365 + (y - 1) div 4 - (y - 1) div 100 + (y - 1) div 400"
    unfolding days_before_year_def Let_def by (rule refl)
  have l: "is_leap y \<longleftrightarrow> y mod 4 = 0 \<and> (\<not> y mod 100 = 0 \<or> y mod 400 = 0)"
    unfolding is_leap_def by (rule refl)
  show ?thesis
    unfolding f1 f2 l
    using year_sum [OF a b c, of y] leap_count [of "y mod 400 = 0" "y mod 100 = 0" "y mod 4 = 0", OF d e]
    by (simp only: add.assoc)
qed


lemma days_in_month_bounds: "28 \<le> days_in_month y m" "days_in_month y m \<le> 31"
  by (simp_all add: days_in_month_def)

lemma days_in_december: "days_in_month y 12 = 31"
  by (simp add: days_in_month_def)

lemma days_before_month_step:
  assumes "1 \<le> m" "m < 12"
  shows "days_before_month y (m + 1) = days_before_month y m + days_in_month y m"
proof -
  from assms have "m = 1 \<or> m = 2 \<or> m = 3 \<or> m = 4 \<or> m = 5 \<or> m = 6 \<or> m = 7 \<or> m = 8
      \<or> m = 9 \<or> m = 10 \<or> m = 11"
    by arith
  then show ?thesis
    by (elim disjE) (simp_all add: days_before_month_def days_in_month_def)
qed

lemma toordinal_tomorrow:
  assumes "1 \<le> month t" "month t \<le> 12" "day t \<le> days_in_month (year t) (month t)"
  shows "toordinal (tomorrow t) = toordinal t + 1"
proof (cases "day t < days_in_month (year t) (month t)")
  case True
  then show ?thesis by (simp add: tomorrow_def toordinal_def ymd2ord_def)
next
  case False
  with assms have d: "day t = days_in_month (year t) (month t)" by simp
  show ?thesis
  proof (cases "month t < 12")
    case True
    with assms d days_before_month_step [of "month t" "year t"] show ?thesis
      by (simp add: tomorrow_def toordinal_def ymd2ord_def)
  next
    case False
    with assms have m: "month t = 12" by simp
    have "days_before_month (year t + 1) 1 = 0" "days_before_month (year t) 12 = 334 + (if is_leap (year t) then 1 else 0)"
      by (simp_all add: days_before_month_def)
    with m d show ?thesis
      by (simp add: tomorrow_def toordinal_def ymd2ord_def days_before_year_step days_in_december)
  qed
qed

lemma tomorrow_calendar:
  assumes "1 \<le> month t" "month t \<le> 12" "1 \<le> day t" "day t \<le> days_in_month (year t) (month t)"
  shows "1 \<le> month (tomorrow t) \<and> month (tomorrow t) \<le> 12 \<and> 1 \<le> day (tomorrow t)
     \<and> day (tomorrow t) \<le> days_in_month (year (tomorrow t)) (month (tomorrow t))"
proof (cases "day t < days_in_month (year t) (month t)")
  case True
  with assms show ?thesis by (simp add: tomorrow_def)
next
  case False
  have "1 \<le> days_in_month y m" for y m
    using days_in_month_bounds(1) [of y m] by simp
  with False assms show ?thesis by (simp add: tomorrow_def)
qed

lemma tomorrow_time:
  "hour (tomorrow t) = hour t" "minute (tomorrow t) = minute t" "second (tomorrow t) = second t"
  "microsecond (tomorrow t) = microsecond t"
  by (simp_all add: tomorrow_def)

lemma tomorrow_same_year:
  assumes "month t \<le> 12" "day t \<le> days_in_month (year t) (month t)"
    and "month t < 12 \<or> day t < 31"
  shows "year (tomorrow t) = year t"
  using assms by (auto simp: tomorrow_def days_in_december)

lemma tomorrow_not_last:
  assumes "1 \<le> month t" "month t \<le> 12" "1 \<le> day t" "day t \<le> days_in_month (year t) (month t)"
    and "month t < 12 \<or> day t < 30"
  shows "month (tomorrow t) < 12 \<or> day (tomorrow t) < 31"
proof (cases "day t < days_in_month (year t) (month t)")
  case True
  with assms days_in_month_bounds(2) [of "year t" "month t"] show ?thesis
    by (auto simp: tomorrow_def days_in_december)
next
  case False
  with assms show ?thesis by (auto simp: tomorrow_def days_in_december)
qed

text \<open>
  What \<open>strptime\<close>, \<open>replace\<close> and the addition of one or two days return on dates that exist.
\<close>

lemma strptime_Some:
  assumes "strptime v = Some bd"
  shows "\<exists>y m d. bd = midnight y m d \<and> valid_date y m d"
  using assms unfolding strptime_def Let_def
  by (auto split: if_splits option.splits)

lemma strptime_midnight:
  assumes "strptime v = Some bd"
  shows "hour bd = 0" "minute bd = 0" "second bd = 0" "microsecond bd = 0"
    "valid_date (year bd) (month bd) (day bd)"
  using strptime_Some [OF assms] by (auto simp: midnight_def)

lemma replace_year_exists:
  "valid_date y (month t) (day t) \<Longrightarrow> replace_year t y = Inr (t\<lparr>year := y\<rparr>)"
  by (simp add: replace_year_def valid_date_def)

lemma add_days_1: "add_days t 1 = (if 9999 < year (tomorrow t) then Inl (OverflowError ''date value out of range'') else Inr (tomorrow t))"
  by (simp add: add_days_def)

lemma add_days_2: "add_days t 2 = (if 9999 < year (tomorrow (tomorrow t)) then Inl (OverflowError ''date value out of range'') else Inr (tomorrow (tomorrow t)))"
  by (simp add: add_days_def numeral_2_eq_2)

lemma weekday_end_of_9999:
  "year t = 9999 \<Longrightarrow> month t = 12 \<Longrightarrow> day t = 31 \<Longrightarrow> weekday t = 4"
  "year t = 9999 \<Longrightarrow> month t = 12 \<Longrightarrow> day t = 30 \<Longrightarrow> weekday t = 3"
  by (simp_all add: weekday_def toordinal_def ymd2ord_def days_before_year_def
      days_before_month_def is_leap_def)

lemma one_day_in_range:
  assumes v: "valid_date (year t) (month t) (day t)" and w: "weekday t = 6"
  shows "year (tomorrow t) \<le> 9999"
proof (cases "month t < 12 \<or> day t < 31")
  case True
  with v tomorrow_same_year [of t] show ?thesis by (simp add: valid_date_def)
next
  case False
  with v have md: "month t = 12" "day t = 31"
    using days_in_december [of "year t"] by (auto simp: valid_date_def)
  with w weekday_end_of_9999(1) [of t] have "year t \<noteq> 9999" by auto
  with v md show ?thesis by (simp add: tomorrow_def valid_date_def days_in_december)
qed

lemma two_days_in_range:
  assumes v: "valid_date (year t) (month t) (day t)" and w: "weekday t = 5"
  shows "year (tomorrow (tomorrow t)) \<le> 9999"
proof (cases "month t < 12 \<or> day t < 30")
  case True
  from v have c: "1 \<le> month t" "month t \<le> 12" "1 \<le> day t" "day t \<le> days_in_month (year t) (month t)"
    by (simp_all add: valid_date_def)
  from True have "month t < 12 \<or> day t < 31" by auto
  with c have y1: "year (tomorrow t) = year t" by (simp add: tomorrow_same_year)
  from c True have "month (tomorrow t) < 12 \<or> day (tomorrow t) < 31" by (rule tomorrow_not_last)
  with tomorrow_calendar [OF c] have "year (tomorrow (tomorrow t)) = year (tomorrow t)"
    by (simp add: tomorrow_same_year)
  with y1 v show ?thesis by (simp add: valid_date_def)
next
  case False
  with v have md: "month t = 12" "day t = 30 \<or> day t = 31"
    using days_in_december [of "year t"] by (auto simp: valid_date_def)
  with w weekday_end_of_9999 [of t] have "year t \<noteq> 9999" by auto
  with v have y: "year t + 1 \<le> 9999" by (simp add: valid_date_def)
  have "days_in_month (year t + 1) 1 = 31" by (simp add: days_in_month_def)
  with md have "year (tomorrow (tomorrow t)) = year t + 1"
    by (auto simp: tomorrow_def days_in_december)
  with y show ?thesis by simp
qed

lemma weekend_shift_no_overflow:
  assumes "valid_date (year t) (month t) (day t)"
  shows "(if weekday t = 5 then add_days t 2 else if weekday t = 6 then add_days t 1 else Inr t)
     = Inr (weekend_shift t)"
proof (cases "weekday t = 5")
  case True
  with two_days_in_range [OF assms] show ?thesis
    by (simp only: add_days_2 weekend_shift_def if_True) simp
next
  case False
  show ?thesis
  proof (cases "weekday t = 6")
    case True
    with False one_day_in_range [OF assms] show ?thesis
      by (simp only: add_days_1 weekend_shift_def if_True if_False) simp
  next
    case f: False
    with False show ?thesis by (simp only: weekend_shift_def if_False)
  qed
qed

text \<open>
  The difference in days from a time of day to a later or earlier midnight is rounded down.
\<close>

lemma div_between:
  fixes x k :: int
  assumes "0 < k" "- k \<le> x" "x \<le> 0"
  shows "- 1 \<le> x div k" "x div k \<le> 0"
proof -
  from assms have "(- k) div k \<le> x div k" by (intro zdiv_mono1) simp_all
  moreover from assms have "(- k) div k = - 1" by (simp add: dvd_neg_div)
  ultimately show "- 1 \<le> x div k" by simp
  from assms have "x div k \<le> 0 div k" by (intro zdiv_mono1) simp_all
  then show "x div k \<le> 0" by simp
qed

lemma sub_days_from_midnight:
  assumes a: "hour a = 0" "minute a = 0" "second a = 0" "microsecond a = 0"
    and b: "valid_datetime b"
  shows "toordinal a - toordinal b - 1 \<le> sub_days a b" "sub_days a b \<le> toordinal a - toordinal b"
proof -
  define u where "u = (- microsecond b) div 1000000"
  define s where "s = - (hour b * 3600 + minute b * 60 + second b) + u"
  from b have t: "0 \<le> hour b" "hour b \<le> 23" "0 \<le> minute b" "minute b \<le> 59"
      "0 \<le> second b" "second b \<le> 59" "0 \<le> microsecond b" "microsecond b < 1000000"
    by (simp_all add: valid_datetime_def)
  from t have "- 1 \<le> u" "u \<le> 0"
    unfolding u_def by (intro div_between; simp)+
  with t have "- 86400 \<le> s" "s \<le> 0" by (simp_all add: s_def)
  then have q: "- 1 \<le> s div 86400" "s div 86400 \<le> 0"
    by (intro div_between; simp)+
  have "sub_days a b = toordinal a - toordinal b + s div 86400"
    using a by (simp add: sub_days_def s_def u_def Let_def)
  with q show "toordinal a - toordinal b - 1 \<le> sub_days a b" "sub_days a b \<le> toordinal a - toordinal b"
    by simp_all
qed

lemma ymd2ord_next_year: "ymd2ord y m d + 365 \<le> ymd2ord (y + 1) m d"
  by (simp add: ymd2ord_def days_before_year_step days_before_month_def)

lemma toordinal_weekend_shift:
  assumes "valid_date (year t) (month t) (day t)"
  shows "toordinal (weekend_shift t)
     = toordinal t + (if weekday t = 5 then 2 else if weekday t = 6 then 1 else 0)"
proof -
  from assms have c: "1 \<le> month t" "month t \<le> 12" "1 \<le> day t" "day t \<le> days_in_month (year t) (month t)"
    by (simp_all add: valid_date_def)
  then have one: "toordinal (tomorrow t) = toordinal t + 1" by (simp add: toordinal_tomorrow)
  from tomorrow_calendar [OF c] have "toordinal (tomorrow (tomorrow t)) = toordinal (tomorrow t) + 1"
    by (simp add: toordinal_tomorrow)
  with one show ?thesis by (simp add: weekend_shift_def)
qed

lemma weekend_shift_time:
  "hour (weekend_shift t) = hour t" "minute (weekend_shift t) = minute t"
  "second (weekend_shift t) = second t" "microsecond (weekend_shift t) = microsecond t"
  by (simp_all add: weekend_shift_def tomorrow_time)

lemma weekend_shift_weekday:
  assumes "valid_date (year t) (month t) (day t)"
  shows "weekday (weekend_shift t) = (if weekday t = 5 \<or> weekday t = 6 then 0 else weekday t)"
proof -
  have a: "(x + 6) mod 7 = 5 \<Longrightarrow> (x + 2 + 6) mod 7 = 0" for x :: int by presburger
  have b: "(x + 6) mod 7 = 6 \<Longrightarrow> (x + 1 + 6) mod 7 = 0" for x :: int by presburger
  show ?thesis
  proof (cases "weekday t = 5")
    case True
    with a [of "toordinal t"] toordinal_weekend_shift [OF assms] show ?thesis
      by (simp add: weekday_def)
  next
    case False
    show ?thesis
    proof (cases "weekday t = 6")
      case True
      with b [of "toordinal t"] toordinal_weekend_shift [OF assms] show ?thesis
        by (simp add: weekday_def)
    next
      case f: False
      with False show ?thesis by (simp add: weekend_shift_def)
    qed
  qed
qed

lemma replace_year_Inr:
  assumes "replace_year t y = Inr t'"
  shows "t' = t\<lparr>year := y\<rparr>" "1 \<le> y" "y \<le> 9999" "day t \<le> days_in_month y (month t)"
  using assms by (auto simp: replace_year_def split: if_splits)

section \<open>The loop of the birthday query\<close>

text \<open>
  When the dates that the loop body builds exist, the body does what the
  specification says, and the loop collects the entries in the order of the book.
\<close>

lemma strptime_empty: "strptime [] = None"
  by (simp add: strptime_def)

lemma upcoming_of_spec:
  assumes "occurrence_exists today r"
  shows "upcoming_of today r = Inr (spec_upcoming today r)"
proof (cases "birthday r")
  case None
  then show ?thesis by (simp add: upcoming_of_def spec_upcoming_def)
next
  case (Some v)
  show ?thesis
  proof (cases "strptime v")
    case None
    with Some show ?thesis by (simp add: upcoming_of_def spec_upcoming_def)
  next
    case (Some bd)
    with \<open>birthday r = Some v\<close> have v: "v \<noteq> []" by (auto simp: strptime_empty)
    from assms Some \<open>birthday r = Some v\<close>
    have e: "occurs_in bd (year today)" "occurs_in bd (year (occurrence today bd))"
      by (simp_all add: occurrence_exists_def)
    from e(1) have b0: "replace_year bd (year today) = Inr (bd\<lparr>year := year today\<rparr>)"
      by (simp add: occurs_in_def replace_year_exists)
    have b1: "(if dt_less (bd\<lparr>year := year today\<rparr>) today
               then replace_year (bd\<lparr>year := year today\<rparr>) (year today + 1)
               else Inr (bd\<lparr>year := year today\<rparr>)) = Inr (occurrence today bd)"
    proof (cases "dt_less (bd\<lparr>year := year today\<rparr>) today")
      case True
      with e(2) have "valid_date (year today + 1) (month bd) (day bd)"
        by (simp add: occurs_in_def occurrence_def)
      then have "replace_year (bd\<lparr>year := year today\<rparr>) (year today + 1)
          = Inr (bd\<lparr>year := year today + 1\<rparr>)"
        using replace_year_exists [of "year today + 1" "bd\<lparr>year := year today\<rparr>"] by simp
      with True show ?thesis by (simp add: occurrence_def)
    next
      case False
      then show ?thesis by (simp add: occurrence_def)
    qed
    have md: "month (occurrence today bd) = month bd" "day (occurrence today bd) = day bd"
      by (simp_all add: occurrence_def)
    with e(2) have "valid_date (year (occurrence today bd)) (month (occurrence today bd))
        (day (occurrence today bd))"
      by (simp add: occurs_in_def)
    then have b2: "(if weekday (occurrence today bd) = 5 then add_days (occurrence today bd) 2
           else if weekday (occurrence today bd) = 6 then add_days (occurrence today bd) 1
           else Inr (occurrence today bd)) = Inr (weekend_shift (occurrence today bd))"
      by (rule weekend_shift_no_overflow)
    show ?thesis
      using \<open>birthday r = Some v\<close> Some v
      by (simp add: upcoming_of_def spec_upcoming_def object_truthy_def b0 b1 b2 days_until_def Let_def)
  qed
qed

lemma upcoming_loop_spec:
  assumes "\<forall>r \<in> set rs. upcoming_of today r = Inr (f r)"
  shows "upcoming_loop today rs acc = Inr (acc @ List.map_filter f rs)"
  using assms
proof (induction rs arbitrary: acc)
  case Nil
  then show ?case by (simp add: map_filter_simps)
next
  case (Cons r rs)
  then show ?case by (cases "f r") (simp_all add: map_filter_simps)
qed

lemma upcoming_loop_skip:
  assumes "upcoming_of today r = Inr None"
  shows "upcoming_loop today (xs @ r # ys) acc = upcoming_loop today (xs @ ys) acc"
proof (induction xs arbitrary: acc)
  case Nil
  then show ?case using assms by simp
next
  case (Cons x xs)
  then show ?case by (simp split: sum.splits option.splits)
qed

section \<open>The weekend shift comes before the range check\<close>

text \<open>
  Where the dates that the loop builds exist for every record of the book,
  \<open>get_upcoming_birthdays\<close> returns, in the order of the book, the entries of the
  specification: this year's occurrence, rolled to next year if it is before now,
  then moved from a Saturday by two days and from a Sunday by one, then the days
  until the moved date, and the record is listed if and only if these are between 0
  and 7. The test is on the moved date, so a record whose moved date is more than 7
  days away is left out whatever its unmoved date.
\<close>

theorem upcoming_birthdays_shift_then_range_check:
  assumes "valid_datetime today"
    and "\<forall>r \<in> set (map snd book). occurrence_exists today r"
  shows "get_upcoming_birthdays today book
           = Inr (List.map_filter (spec_upcoming today) (map snd book))
     \<and> (\<forall>r \<in> set (map snd book). \<forall>v bd. birthday r = Some v \<and> strptime v = Some bd \<longrightarrow>
          upcoming_of today r =
            (if 0 \<le> sub_days (weekend_shift (occurrence today bd)) today
                \<and> sub_days (weekend_shift (occurrence today bd)) today \<le> 7
             then Inr (Some (name r, strftime (weekend_shift (occurrence today bd))))
             else Inr None))"
proof -
  from assms(2) have "\<forall>r \<in> set (map snd book). upcoming_of today r = Inr (spec_upcoming today r)"
    by (simp add: upcoming_of_spec)
  then have "upcoming_loop today (map snd book) []
      = Inr ([] @ List.map_filter (spec_upcoming today) (map snd book))"
    by (rule upcoming_loop_spec)
  then have a: "get_upcoming_birthdays today book
           = Inr (List.map_filter (spec_upcoming today) (map snd book))"
    by (simp add: get_upcoming_birthdays_def)
  have b: "upcoming_of today r =
            (if 0 \<le> sub_days (weekend_shift (occurrence today bd)) today
                \<and> sub_days (weekend_shift (occurrence today bd)) today \<le> 7
             then Inr (Some (name r, strftime (weekend_shift (occurrence today bd))))
             else Inr None)"
    if "r \<in> set (map snd book)" "birthday r = Some v" "strptime v = Some bd" for r v bd
  proof -
    from that(1) assms(2) have "occurrence_exists today r" by blast
    then have "upcoming_of today r = Inr (spec_upcoming today r)" by (rule upcoming_of_spec)
    with that(2,3) show ?thesis by (simp add: spec_upcoming_def days_until_def Let_def)
  qed
  from a b show ?thesis by blast
qed

text \<open>
  Claim C1 on the code: the claim is about every record with a parseable birthday,
  and a birthday on 29 February is parseable. On 10 June 2023, a year without that day,
  \<open>replace\<close> raises \<open>ValueError\<close> outside the \<open>try\<close> and the exception leaves the
  query: no occurrence is computed for that record, and the record of 12 June, two
  days away, is not listed either. The command \<open>birthdays\<close> prints the text of the
  error. Without the record of 29 February the query lists 12 June.
\<close>

theorem leap_day_birthday_raises:
  "strptime ''29.02.2000'' = Some (midnight 2000 2 29)
   \<and> get_upcoming_birthdays
       \<lparr>year = 2023, month = 6, day = 10, hour = 9, minute = 0, second = 0, microsecond = 0\<rparr>
       [(''alice'', \<lparr>name = ''alice'', phones = [''1234567890''], birthday = Some ''29.02.2000''\<rparr>),
        (''bob'', \<lparr>name = ''bob'', phones = [''0987654321''], birthday = Some ''12.06.1990''\<rparr>)]
     = Inl (ValueError ''day is out of range for month'')
   \<and> show_upcoming_birthdays
       \<lparr>year = 2023, month = 6, day = 10, hour = 9, minute = 0, second = 0, microsecond = 0\<rparr>
       [(''alice'', \<lparr>name = ''alice'', phones = [''1234567890''], birthday = Some ''29.02.2000''\<rparr>),
        (''bob'', \<lparr>name = ''bob'', phones = [''0987654321''], birthday = Some ''12.06.1990''\<rparr>)]
     = ''ValueError: day is out of range for month''
   \<and> get_upcoming_birthdays
       \<lparr>year = 2023, month = 6, day = 10, hour = 9, minute = 0, second = 0, microsecond = 0\<rparr>
       [(''bob'', \<lparr>name = ''bob'', phones = [''0987654321''], birthday = Some ''12.06.1990''\<rparr>)]
     = Inr [(''bob'', ''12.06.2023'')]"
  by code_simp

text \<open>
  The theorem on Friday 7 June 2024 at noon: a birthday on Saturday 15 June is 7 days
  away, is moved to Monday 17 June, 9 days away, and is left out; a birthday on
  Thursday 13 June is listed.
\<close>

theorem upcoming_birthdays_shift_then_range_check_witness:
  "get_upcoming_birthdays
       \<lparr>year = 2024, month = 6, day = 7, hour = 12, minute = 0, second = 0, microsecond = 0\<rparr>
       [(''alice'', \<lparr>name = ''alice'', phones = [], birthday = Some ''15.06.1990''\<rparr>),
        (''bob'', \<lparr>name = ''bob'', phones = [], birthday = Some ''13.06.1985''\<rparr>)]
     = Inr [(''bob'', ''13.06.2024'')]
   \<and> days_until \<lparr>year = 2024, month = 6, day = 7, hour = 12, minute = 0, second = 0, microsecond = 0\<rparr>
        (occurrence \<lparr>year = 2024, month = 6, day = 7, hour = 12, minute = 0, second = 0, microsecond = 0\<rparr>
           (midnight 1990 6 15)) = 7
   \<and> days_until \<lparr>year = 2024, month = 6, day = 7, hour = 12, minute = 0, second = 0, microsecond = 0\<rparr>
        (weekend_shift (occurrence \<lparr>year = 2024, month = 6, day = 7, hour = 12, minute = 0, second = 0, microsecond = 0\<rparr>
           (midnight 1990 6 15))) = 9"
proof -
  let ?T = "\<lparr>year = 2024, month = 6, day = 7, hour = 12, minute = 0, second = 0, microsecond = 0\<rparr>"
  let ?B = "[(''alice'', \<lparr>name = ''alice'', phones = [], birthday = Some ''15.06.1990''\<rparr>),
        (''bob'', \<lparr>name = ''bob'', phones = [], birthday = Some ''13.06.1985''\<rparr>)]"
  have t: "valid_datetime ?T" by code_simp
  have h: "\<forall>r \<in> set (map snd ?B). occurrence_exists ?T r"
    by code_simp
  have v: "List.map_filter (spec_upcoming ?T) (map snd ?B) = [(''bob'', ''13.06.2024'')]"
    by code_simp
  have d: "days_until ?T (occurrence ?T (midnight 1990 6 15)) = 7"
    "days_until ?T (weekend_shift (occurrence ?T (midnight 1990 6 15))) = 9"
    by code_simp+
  from upcoming_birthdays_shift_then_range_check [OF t h] v d show ?thesis by simp
qed

section \<open>The example of 10 June 2024\<close>

text \<open>
  Claim C2, as the code has it: at any time of 10 June 2024, a book with one record
  whose birthday is 15.06.1990 yields that record with the date 17.06.2024, because
  15 June 2024 is a Saturday.
\<close>

theorem june_15_is_moved_to_june_17:
  assumes "valid_datetime today" and "year today = 2024" and "month today = 6" and "day today = 10"
    and "birthday r = Some ''15.06.1990''"
  shows "get_upcoming_birthdays today [(k, r)] = Inr [(name r, ''17.06.2024'')]"
proof -
  have p: "strptime ''15.06.1990'' = Some (midnight 1990 6 15)" by code_simp
  have nl: "\<not> dt_less ((midnight 1990 6 15)\<lparr>year := year today\<rparr>) today"
    using assms(2-4) by (simp add: dt_less_def dt_fields_def midnight_def)
  then have occ: "occurrence today (midnight 1990 6 15) = midnight 2024 6 15"
    using assms(2) by (simp add: occurrence_def midnight_def)
  have ex: "occurrence_exists today r"
    using assms(2,5) p occ by (simp add: occurrence_exists_def occurs_in_def midnight_def)
      (simp add: valid_date_def days_in_month_def)
  have sh: "weekend_shift (midnight 2024 6 15) = midnight 2024 6 17" by code_simp
  have fmt: "strftime (midnight 2024 6 17) = ''17.06.2024''" by code_simp
  have "toordinal (midnight 2024 6 17) = 739054" by code_simp
  moreover have "toordinal today = 739047"
  proof -
    have "toordinal today = ymd2ord 2024 6 10" using assms(2-4) by (simp add: toordinal_def)
    also have "\<dots> = 739047" by code_simp
    finally show ?thesis .
  qed
  ultimately have "6 \<le> sub_days (midnight 2024 6 17) today" "sub_days (midnight 2024 6 17) today \<le> 7"
    using sub_days_from_midnight [of "midnight 2024 6 17" today] assms(1) by (simp_all add: midnight_def)
  then have "spec_upcoming today r = Some (name r, ''17.06.2024'')"
    using assms(5) p occ sh fmt by (simp add: spec_upcoming_def days_until_def)
  with upcoming_of_spec [OF ex] show ?thesis
    by (simp add: get_upcoming_birthdays_def)
qed

text \<open>
  At midnight of 10 June 2024 the listed date is 17.06.2024, not 15.06.2024; 15 June 2024 is weekday 5.
\<close>

theorem june_15_not_listed_as_june_15_counterexample:
  "get_upcoming_birthdays
      \<lparr>year = 2024, month = 6, day = 10, hour = 0, minute = 0, second = 0, microsecond = 0\<rparr>
      [(''alice'', \<lparr>name = ''alice'', phones = [], birthday = Some ''15.06.1990''\<rparr>)]
    = Inr [(''alice'', ''17.06.2024'')]
   \<and> weekday (midnight 2024 6 15) = 5"
  by code_simp

text \<open>
  The theorem at 18:30 of that day.
\<close>

theorem june_15_is_moved_to_june_17_witness:
  "get_upcoming_birthdays
      \<lparr>year = 2024, month = 6, day = 10, hour = 18, minute = 30, second = 0, microsecond = 0\<rparr>
      [(''alice'', \<lparr>name = ''alice'', phones = [''1234567890''], birthday = Some ''15.06.1990''\<rparr>)]
    = Inr [(''alice'', ''17.06.2024'')]"
proof -
  let ?T = "\<lparr>year = 2024, month = 6, day = 10, hour = 18, minute = 30, second = 0, microsecond = 0\<rparr>"
  have "valid_datetime ?T" by code_simp
  from june_15_is_moved_to_june_17 [OF this, of "\<lparr>name = ''alice'', phones = [''1234567890''], birthday = Some ''15.06.1990''\<rparr>" "''alice''"]
  show ?thesis by simp
qed

section \<open>A birthday that is today\<close>

text \<open>
  For a record whose birthday has today's day and month, at any time after midnight,
  this year's occurrence exists and compares as before now, so the loop body
  replaces its year by the next one. Where that replacement succeeds, the rolled
  date, moved off the weekend or not, is more than 7 days away and the record adds
  nothing to the result; where it raises, the exception leaves the query.
\<close>

theorem birthday_today_after_midnight_is_rolled:
  assumes "valid_datetime today" and "birthday r = Some v" and "strptime v = Some bd"
    and "month bd = month today" and "day bd = day today"
    and "0 < hour today \<or> 0 < minute today \<or> 0 < second today \<or> 0 < microsecond today"
  shows "replace_year bd (year today) = Inr (bd\<lparr>year := year today\<rparr>)
     \<and> dt_less (bd\<lparr>year := year today\<rparr>) today
     \<and> upcoming_of today r =
          (case replace_year (bd\<lparr>year := year today\<rparr>) (year today + 1) of
             Inl e \<Rightarrow> Inl e
           | Inr rolled \<Rightarrow> Inr None)
     \<and> (\<forall>rolled. replace_year (bd\<lparr>year := year today\<rparr>) (year today + 1) = Inr rolled \<longrightarrow>
          rolled = bd\<lparr>year := year today + 1\<rparr>
          \<and> 7 < sub_days (weekend_shift rolled) today
          \<and> get_upcoming_birthdays today (xs @ (k, r) # ys)
              = get_upcoming_birthdays today (xs @ ys))"
proof -
  note mid = strptime_midnight [OF assms(3)]
  from assms(1) have t: "valid_date (year today) (month today) (day today)"
      "0 \<le> hour today" "0 \<le> minute today" "0 \<le> second today" "0 \<le> microsecond today"
    by (simp_all add: valid_datetime_def)
  from t(1) assms(4,5) have this_year: "occurs_in bd (year today)" by (simp add: occurs_in_def)
  then have r0: "replace_year bd (year today) = Inr (bd\<lparr>year := year today\<rparr>)"
    by (simp add: occurs_in_def replace_year_exists)
  have less: "dt_less (bd\<lparr>year := year today\<rparr>) today"
    using assms(4,5,6) t(2-5) mid(1-4) by (auto simp: dt_less_def dt_fields_def)
  then have occ: "occurrence today bd = bd\<lparr>year := year today + 1\<rparr>"
    by (simp add: occurrence_def)
  from assms(2,3) have v: "v \<noteq> []" by (auto simp: strptime_empty)
  have raised: "upcoming_of today r = Inl e"
    if "replace_year (bd\<lparr>year := year today\<rparr>) (year today + 1) = Inl e" for e
    using that assms(2,3) v r0 less by (simp add: upcoming_of_def object_truthy_def)
  have excl: "rolled = bd\<lparr>year := year today + 1\<rparr>
          \<and> 7 < sub_days (weekend_shift rolled) today
          \<and> upcoming_of today r = Inr None
          \<and> get_upcoming_birthdays today (xs @ (k, r) # ys)
              = get_upcoming_birthdays today (xs @ ys)"
    if ro: "replace_year (bd\<lparr>year := year today\<rparr>) (year today + 1) = Inr rolled" for rolled
  proof -
    let ?o = "bd\<lparr>year := year today + 1\<rparr>"
    from replace_year_Inr [OF ro] have eq: "rolled = ?o"
      and y: "1 \<le> year today + 1" "year today + 1 \<le> 9999"
      and d: "day bd \<le> days_in_month (year today + 1) (month bd)"
      by simp_all
    with mid(5) have next_year: "occurs_in bd (year today + 1)"
      by (simp add: occurs_in_def valid_date_def)
    then have vo: "valid_date (year ?o) (month ?o) (day ?o)" by (simp add: occurs_in_def)
    have "toordinal ?o = ymd2ord (year today + 1) (month today) (day today)"
      using assms(4,5) by (simp add: toordinal_def)
    with ymd2ord_next_year [of "year today" "month today" "day today"]
    have "toordinal today + 365 \<le> toordinal ?o" by (simp add: toordinal_def)
    moreover have "toordinal ?o \<le> toordinal (weekend_shift ?o)"
      using toordinal_weekend_shift [OF vo] by simp
    moreover have "toordinal (weekend_shift ?o) - toordinal today - 1 \<le> sub_days (weekend_shift ?o) today"
      using mid(1-4) assms(1) by (intro sub_days_from_midnight) (simp_all add: weekend_shift_time)
    ultimately have far: "7 < sub_days (weekend_shift ?o) today" by simp
    from this_year next_year assms(2,3) occ have "occurrence_exists today r"
      by (simp add: occurrence_exists_def)
    then have "upcoming_of today r = Inr (spec_upcoming today r)" by (rule upcoming_of_spec)
    with far assms(2,3) occ have none: "upcoming_of today r = Inr None"
      by (simp add: spec_upcoming_def days_until_def)
    then have "upcoming_loop today (map snd xs @ r # map snd ys) []
        = upcoming_loop today (map snd xs @ map snd ys) []"
      by (rule upcoming_loop_skip)
    then have "get_upcoming_birthdays today (xs @ (k, r) # ys) = get_upcoming_birthdays today (xs @ ys)"
      by (simp add: get_upcoming_birthdays_def)
    with far none eq show ?thesis by simp
  qed
  have body: "upcoming_of today r =
          (case replace_year (bd\<lparr>year := year today\<rparr>) (year today + 1) of
             Inl e \<Rightarrow> Inl e
           | Inr rolled \<Rightarrow> Inr None)"
  proof (cases "replace_year (bd\<lparr>year := year today\<rparr>) (year today + 1)")
    case (Inl e)
    with raised show ?thesis by simp
  next
    case (Inr rolled)
    with excl show ?thesis by simp
  qed
  from r0 less body excl show ?thesis by blast
qed

text \<open>
  The theorem one microsecond after midnight of 10 June 2024, for a birthday on 10.06.1990.
\<close>

theorem birthday_today_after_midnight_is_rolled_witness:
  "dt_less ((midnight 1990 6 10)\<lparr>year := 2024\<rparr>)
      \<lparr>year = 2024, month = 6, day = 10, hour = 0, minute = 0, second = 0, microsecond = 1\<rparr>
   \<and> upcoming_of \<lparr>year = 2024, month = 6, day = 10, hour = 0, minute = 0, second = 0, microsecond = 1\<rparr>
        \<lparr>name = ''alice'', phones = [], birthday = Some ''10.06.1990''\<rparr> = Inr None
   \<and> get_upcoming_birthdays
      \<lparr>year = 2024, month = 6, day = 10, hour = 0, minute = 0, second = 0, microsecond = 1\<rparr>
      [(''alice'', \<lparr>name = ''alice'', phones = [], birthday = Some ''10.06.1990''\<rparr>)]
     = Inr []
   \<and> 7 < sub_days (weekend_shift ((midnight 1990 6 10)\<lparr>year := 2025\<rparr>))
        \<lparr>year = 2024, month = 6, day = 10, hour = 0, minute = 0, second = 0, microsecond = 1\<rparr>"
proof -
  let ?T = "\<lparr>year = 2024, month = 6, day = 10, hour = 0, minute = 0, second = 0, microsecond = 1\<rparr>"
  let ?r = "\<lparr>name = ''alice'', phones = [], birthday = Some ''10.06.1990''\<rparr>"
  have 1: "valid_datetime ?T" by code_simp
  have 2: "birthday ?r = Some ''10.06.1990''" by simp
  have 3: "strptime ''10.06.1990'' = Some (midnight 1990 6 10)" by code_simp
  have 4: "month (midnight 1990 6 10) = month ?T" "day (midnight 1990 6 10) = day ?T"
    by (simp_all add: midnight_def)
  have 5: "0 < hour ?T \<or> 0 < minute ?T \<or> 0 < second ?T \<or> 0 < microsecond ?T" by simp
  have 6: "replace_year ((midnight 1990 6 10)\<lparr>year := year ?T\<rparr>) (year ?T + 1)
      = Inr ((midnight 1990 6 10)\<lparr>year := 2025\<rparr>)"
    by code_simp
  have 7: "get_upcoming_birthdays ?T [] = Inr []" by code_simp
  from birthday_today_after_midnight_is_rolled [OF 1 2 3 4 5, of "[]" "''alice''" "[]"] 6 7
  show ?thesis by simp
qed

text \<open>
  Claim C9 on the code: on 29 February 2024 at noon, a birthday on 29.02.2000 has
  today's day and month. This year's occurrence compares as before now, and the roll
  to 2025, a year without that day, raises \<open>ValueError\<close> outside the \<open>try\<close>: the
  record is neither rolled nor left out of a result, because the query returns none,
  and the record of 1 March, which is listed without it, is lost too. The command
  \<open>birthdays\<close> prints the text of the error.
\<close>

theorem leap_day_today_raises:
  "dt_less ((midnight 2000 2 29)\<lparr>year := 2024\<rparr>)
      \<lparr>year = 2024, month = 2, day = 29, hour = 12, minute = 0, second = 0, microsecond = 0\<rparr>
   \<and> replace_year ((midnight 2000 2 29)\<lparr>year := 2024\<rparr>) 2025
       = Inl (ValueError ''day is out of range for month'')
   \<and> get_upcoming_birthdays
       \<lparr>year = 2024, month = 2, day = 29, hour = 12, minute = 0, second = 0, microsecond = 0\<rparr>
       [(''alice'', \<lparr>name = ''alice'', phones = [''1234567890''], birthday = Some ''29.02.2000''\<rparr>),
        (''bob'', \<lparr>name = ''bob'', phones = [''0987654321''], birthday = Some ''01.03.1990''\<rparr>)]
     = Inl (ValueError ''day is out of range for month'')
   \<and> show_upcoming_birthdays
       \<lparr>year = 2024, month = 2, day = 29, hour = 12, minute = 0, second = 0, microsecond = 0\<rparr>
       [(''alice'', \<lparr>name = ''alice'', phones = [''1234567890''], birthday = Some ''29.02.2000''\<rparr>),
        (''bob'', \<lparr>name = ''bob'', phones = [''0987654321''], birthday = Some ''01.03.1990''\<rparr>)]
     = ''ValueError: day is out of range for month''
   \<and> get_upcoming_birthdays
       \<lparr>year = 2024, month = 2, day = 29, hour = 12, minute = 0, second = 0, microsecond = 0\<rparr>
       [(''bob'', \<lparr>name = ''bob'', phones = [''0987654321''], birthday = Some ''01.03.1990''\<rparr>)]
     = Inr [(''bob'', ''01.03.2024'')]"
  by code_simp

section \<open>Too few arguments for add\<close>

lemma str_nat_digit: "n < 10 \<Longrightarrow> str_nat n = [''0123456789'' ! n]"
  by (simp add: str_nat.simps)

text \<open>
  Claim C5 on the code: with fewer than two arguments the unpacking in \<open>add_contact\<close>
  raises \<open>ValueError\<close>, not \<open>IndexError\<close>; the decorator's first clause catches it
  and the handler returns the text of that error behind "ValueError: ", which is not
  the message "Please provide the correct number of arguments." The book is unchanged.
\<close>

theorem add_contact_too_few_arguments:
  "length args < 2 \<longrightarrow>
     add_contact args book =
       (''ValueError: not enough values to unpack (expected at least 2, got ''
          @ str_nat (length args) @ '')'', book)
     \<and> fst (add_contact args book) \<noteq> ''Please provide the correct number of arguments.''"
proof
  assume "length args < 2"
  then have "args = [] \<or> (\<exists>a. args = [a])"
    by (cases args) (auto simp: length_Suc_conv)
  then show "add_contact args book =
       (''ValueError: not enough values to unpack (expected at least 2, got ''
          @ str_nat (length args) @ '')'', book)
     \<and> fst (add_contact args book) \<noteq> ''Please provide the correct number of arguments.''"
    by (auto simp: add_contact_def add_contact_body_def unpack_at_least_def input_error_def
        str_nat_digit)
qed

text \<open>
  The theorem at \<open>add\<close> with a name and no phone, on the empty book.
\<close>

theorem add_contact_too_few_arguments_witness:
  "add_contact [''alice''] [] =
     (''ValueError: not enough values to unpack (expected at least 2, got 1)'', [])"
  using add_contact_too_few_arguments [of "[''alice'']" "[]"] by (simp add: str_nat_digit)

section \<open>Looking up a name that is absent\<close>

text \<open>
  Claim C6, as the code has it: when the name is not in the book, \<open>change\<close> (given
  its three arguments) and \<open>phone\<close> return "Contact not found."; \<open>add-birthday\<close>
  (given its two arguments) returns "ValueError: Contact {name} not found." and
  \<open>show-birthday\<close> returns "ValueError: No birthday found for contact {name}."
  The book is unchanged.
\<close>

theorem lookup_of_absent_name:
  "find_rec nm book = None \<longrightarrow>
     change_contact [nm, old_phone, new_phone] book = (''Contact not found.'', book)
     \<and> show_phone (nm # rest) book = ''Contact not found.''
     \<and> add_birthday [nm, bday] book = (''ValueError: Contact '' @ nm @ '' not found.'', book)
     \<and> show_birthday (nm # rest) book = ''ValueError: No birthday found for contact '' @ nm @ ''.''"
  by (simp add: change_contact_def change_contact_body_def show_phone_def show_phone_body_def
      add_birthday_def add_birthday_body_def show_birthday_def show_birthday_body_def
      input_error_def)

text \<open>
  On the empty book \<open>add-birthday\<close> and \<open>show-birthday\<close> for \<open>bob\<close> return other messages than "Contact not found."
\<close>

theorem add_birthday_absent_name_counterexample:
  "find_rec ''bob'' [] = None
   \<and> fst (add_birthday [''bob'', ''01.01.2000''] []) = ''ValueError: Contact bob not found.''
   \<and> show_birthday [''bob''] [] = ''ValueError: No birthday found for contact bob.''"
  by (simp add: find_rec_def add_birthday_def add_birthday_body_def show_birthday_def
      show_birthday_body_def input_error_def)

text \<open>
  The theorem at the name \<open>bob\<close> and the empty book.
\<close>

theorem lookup_of_absent_name_witness:
  "change_contact [''bob'', ''1111111111'', ''2222222222''] [] = (''Contact not found.'', [])
   \<and> show_phone [''bob''] [] = ''Contact not found.''"
  using lookup_of_absent_name [of "''bob''" "[]" "''1111111111''" "''2222222222''" "[]"]
  by (simp add: find_rec_def)

section \<open>A rejected phone leaves the new record behind\<close>

lemma update_absent: "map_of book k = None \<Longrightarrow> AList.update k v book = book @ [(k, v)]"
  by (induction book) (auto split: if_splits)

text \<open>
  Claim C10: the arguments of a handler are tokens of \<open>str.split\<close>, so the phone is
  not empty and \<open>add_contact\<close> validates it. When the name is not in the book and
  \<open>Phone\<close> rejects the phone, the body has inserted the new record before
  \<open>add_phone\<close> raises: the handler returns the validation error, and the book is the
  old book followed by a record under that name with no phone and no birthday.
\<close>

theorem add_contact_keeps_record_when_phone_rejected:
  "find_rec nm book = None \<and> phone \<noteq> [] \<and> Phone (PyStr phone) = Inl e \<longrightarrow>
     add_contact_body (nm # phone # rest) book
       = (Inl e, book @ [(nm, \<lparr>name = nm, phones = [], birthday = None\<rparr>)])
     \<and> add_contact (nm # phone # rest) book
       = (''ValueError: The phone number must be a string of 10 digits'',
          book @ [(nm, \<lparr>name = nm, phones = [], birthday = None\<rparr>)])
     \<and> find_rec nm (snd (add_contact (nm # phone # rest) book))
       = Some \<lparr>name = nm, phones = [], birthday = None\<rparr>"
proof
  assume a: "find_rec nm book = None \<and> phone \<noteq> [] \<and> Phone (PyStr phone) = Inl e"
  then have e: "e = ValueError ''The phone number must be a string of 10 digits''"
    by (auto simp: Phone_def split: if_splits)
  have u: "add_record (Record_init nm) book = book @ [(nm, \<lparr>name = nm, phones = [], birthday = None\<rparr>)]"
    using a by (simp add: add_record_def Record_init_def find_rec_def update_absent)
  have b: "add_contact_body (nm # phone # rest) book
       = (Inl e, book @ [(nm, \<lparr>name = nm, phones = [], birthday = None\<rparr>)])"
    using a u by (simp add: add_contact_body_def add_phone_def)
  then have r: "add_contact (nm # phone # rest) book
       = (''ValueError: The phone number must be a string of 10 digits'',
          book @ [(nm, \<lparr>name = nm, phones = [], birthday = None\<rparr>)])"
    using e by (simp add: add_contact_def input_error_def)
  have f: "find_rec nm (book @ [(nm, \<lparr>name = nm, phones = [], birthday = None\<rparr>)])
      = Some \<lparr>name = nm, phones = [], birthday = None\<rparr>"
    using a by (simp add: find_rec_def map_add_def)
  show "add_contact_body (nm # phone # rest) book
       = (Inl e, book @ [(nm, \<lparr>name = nm, phones = [], birthday = None\<rparr>)])
     \<and> add_contact (nm # phone # rest) book
       = (''ValueError: The phone number must be a string of 10 digits'',
          book @ [(nm, \<lparr>name = nm, phones = [], birthday = None\<rparr>)])
     \<and> find_rec nm (snd (add_contact (nm # phone # rest) book))
       = Some \<lparr>name = nm, phones = [], birthday = None\<rparr>"
    using b r f by simp
qed

text \<open>
  The theorem at the name \<open>bob\<close>, the phone \<open>12345\<close> and the empty book.
\<close>

theorem add_contact_keeps_record_when_phone_rejected_witness:
  "add_contact [''bob'', ''12345''] [] =
       (''ValueError: The phone number must be a string of 10 digits'',
        [(''bob'', \<lparr>name = ''bob'', phones = [], birthday = None\<rparr>)])"
proof -
  have h: "find_rec ''bob'' [] = None \<and> ''12345'' \<noteq> []
     \<and> Phone (PyStr ''12345'') = Inl (ValueError ''The phone number must be a string of 10 digits'')"
    by (simp add: find_rec_def Phone_def)
  show ?thesis
    using h add_contact_keeps_record_when_phone_rejected [of "''bob''" "[]" "''12345''" _ "[]"]
    by simp
qed

end
